theory Spec2Isabelle
  imports Complex_Main "HOL-Library.Word"
begin

section \<open>Region scheduling core of the placement driver\<close>

text \<open>
  The development follows three source files: \<^verbatim>\<open>server/schedule/region_scatterer.go\<close>,
  \<^verbatim>\<open>server/schedule/filter/filters.go\<close> and \<^verbatim>\<open>server/schedulers/hot_region.go\<close>.
  Go's \<^verbatim>\<open>uint64\<close> is \<open>64 word\<close> (addition wraps), \<^verbatim>\<open>int\<close> and \<^verbatim>\<open>time.Duration\<close>
  are \<open>int\<close>, and \<^verbatim>\<open>float64\<close> rates, ratios and scores are \<open>real\<close>: the properties
  below are about which comparisons the code makes, not about rounding.
\<close>

type_synonym uint64 = "64 word"

subsection \<open>The scatterer's selectedStores tracker (region_scatterer.go, lines 34-97)\<close>

text \<open>
  \<^verbatim>\<open>stores\<close> maps a group to the set of store ids already placed, \<^verbatim>\<open>groupDistribution\<close>
  maps a group to the per-store counters. The mutex is not modelled: every method holds it
  from entry to exit.
\<close>

record selectedStores =
  checkExist :: bool
  stores :: "string \<rightharpoonup> uint64 set"
  groupDistribution :: "string \<rightharpoonup> (uint64 \<rightharpoonup> uint64)"

definition newSelectedStores :: "bool \<Rightarrow> selectedStores" where
  "newSelectedStores ce =
     \<lparr>checkExist = ce, stores = Map.empty, groupDistribution = Map.empty\<rparr>"

text \<open>
  Lines 67-72 of \<^verbatim>\<open>put\<close>: a missing inner map is created, a missing counter reads as
  Go's zero value, and the increment is a \<^verbatim>\<open>uint64\<close> addition.
\<close>

definition bump_distribution :: "selectedStores \<Rightarrow> uint64 \<Rightarrow> string \<Rightarrow> selectedStores" where
  "bump_distribution s ident grp =
     (let distribution = (case groupDistribution s grp of None \<Rightarrow> Map.empty | Some d \<Rightarrow> d);
          old = (case distribution ident of None \<Rightarrow> 0 | Some c \<Rightarrow> c)
      in s\<lparr>groupDistribution := (groupDistribution s)(grp \<mapsto> distribution(ident \<mapsto> old + 1))\<rparr>)"

text \<open>\<^verbatim>\<open>put\<close> returns its boolean together with the tracker after the call.\<close>

definition put :: "selectedStores \<Rightarrow> uint64 \<Rightarrow> string \<Rightarrow> bool \<times> selectedStores" where
  "put s ident grp =
     (if checkExist s then
        (let placed = (case stores s grp of None \<Rightarrow> {} | Some p \<Rightarrow> p)
         in if ident \<in> placed then (False, s)
            else (True, bump_distribution
                          (s\<lparr>stores := (stores s)(grp \<mapsto> insert ident placed)\<rparr>) ident grp))
      else (True, bump_distribution s ident grp))"

definition reset :: "selectedStores \<Rightarrow> selectedStores" where
  "reset s = (if \<not> checkExist s then s else s\<lparr>stores := Map.empty\<rparr>)"

definition get :: "selectedStores \<Rightarrow> uint64 \<Rightarrow> string \<Rightarrow> uint64" where
  "get s ident grp =
     (case groupDistribution s grp of
        None \<Rightarrow> 0
      | Some distribution \<Rightarrow> (case distribution ident of None \<Rightarrow> 0 | Some count \<Rightarrow> count))"

text \<open>
  A run of further \<^verbatim>\<open>put\<close> calls with no \<^verbatim>\<open>reset\<close> among them; the booleans they
  return are dropped.
\<close>

fun puts :: "selectedStores \<Rightarrow> (uint64 \<times> string) list \<Rightarrow> selectedStores" where
  "puts s [] = s"
| "puts s ((ident, grp) # rest) = puts (snd (put s ident grp)) rest"

definition placed_in :: "selectedStores \<Rightarrow> uint64 \<Rightarrow> string \<Rightarrow> bool" where
  "placed_in s ident grp = (case stores s grp of None \<Rightarrow> False | Some p \<Rightarrow> ident \<in> p)"

subsection \<open>Stores, regions and options\<close>

text \<open>
  Modelled from the spec: package \<^verbatim>\<open>core\<close> and the protobuf types are not among the
  sources. Section 3 of the specification gives a store a 64-bit id, ordered key/value
  labels, a lifecycle state in {Up, Offline, Tombstone}, a last-heartbeat timestamp and
  used and total capacity; \<open>DownTime\<close> holds what \<^verbatim>\<open>store.DownTime()\<close> returns when
  the filter runs (the time since the last heartbeat, in nanoseconds).
\<close>

datatype StoreState = Up | Offline | Tombstone

record StoreInfo =
  GetID :: uint64
  GetState :: StoreState
  GetLabels :: "(string \<times> string) list"
  DownTime :: int
  GetUsedSize :: real
  GetCapacity :: real

text \<open>Modelled from the spec: the three state tests of \<^verbatim>\<open>core.StoreInfo\<close>.\<close>

definition IsUp :: "StoreInfo \<Rightarrow> bool" where
  "IsUp store = (GetState store = Up)"

definition IsOffline :: "StoreInfo \<Rightarrow> bool" where
  "IsOffline store = (GetState store = Offline)"

definition IsTombstone :: "StoreInfo \<Rightarrow> bool" where
  "IsTombstone store = (GetState store = Tombstone)"

text \<open>
  Modelled from the spec: a peer is (id, store-id, is-learner); a region has an id, a peer
  list and a designated leader peer, which may be absent (\<^verbatim>\<open>GetLeader() == nil\<close>).
\<close>

record Peer =
  PeerId :: uint64
  StoreId :: uint64
  IsLearner :: bool

record RegionInfo =
  GetRegionID :: uint64
  GetPeers :: "Peer list"
  GetLeader :: "Peer option"

text \<open>
  The part of the \<^verbatim>\<open>opt.Options\<close> interface that the modelled filters read.
\<close>

record Options =
  GetMaxStoreDownTime :: int
  GetLowSpaceRatio :: real

subsection \<open>Filters (filters.go)\<close>

text \<open>The state filter, lines 147-168.\<close>

record stateFilter =
  state_scope :: string

definition NewStateFilter :: "string \<Rightarrow> stateFilter" where
  "NewStateFilter sc = \<lparr>state_scope = sc\<rparr>"

definition stateFilter_Source :: "stateFilter \<Rightarrow> Options \<Rightarrow> StoreInfo \<Rightarrow> bool" where
  "stateFilter_Source f opt store = (\<not> IsTombstone store)"

definition stateFilter_Target :: "stateFilter \<Rightarrow> Options \<Rightarrow> StoreInfo \<Rightarrow> bool" where
  "stateFilter_Target f opt store = IsUp store"

text \<open>
  The distinct-score filter, lines 285-326. \<^verbatim>\<open>core.DistinctScore\<close> is not among the
  sources, so it is the parameter \<open>DistinctScore\<close> of both the constructor and the
  \<^verbatim>\<open>Target\<close> method.
\<close>

record distinctScoreFilter =
  distinct_scope :: string
  distinct_labels :: "string list"
  distinct_stores :: "StoreInfo list"
  safeScore :: real

text \<open>The constructor's loop, lines 296-302: every store but the source, in order.\<close>

fun newStores :: "StoreInfo list \<Rightarrow> StoreInfo \<Rightarrow> StoreInfo list" where
  "newStores [] source = []"
| "newStores (s # rest) source =
     (if GetID s = GetID source then newStores rest source else s # newStores rest source)"

definition NewDistinctScoreFilter ::
  "(string list \<Rightarrow> StoreInfo list \<Rightarrow> StoreInfo \<Rightarrow> real) \<Rightarrow>
   string \<Rightarrow> string list \<Rightarrow> StoreInfo list \<Rightarrow> StoreInfo \<Rightarrow> distinctScoreFilter" where
  "NewDistinctScoreFilter DistinctScore sc labels sts source =
     \<lparr>distinct_scope = sc,
      distinct_labels = labels,
      distinct_stores = newStores sts source,
      safeScore = DistinctScore labels (newStores sts source) source\<rparr>"

definition distinctScoreFilter_Source :: "distinctScoreFilter \<Rightarrow> Options \<Rightarrow> StoreInfo \<Rightarrow> bool" where
  "distinctScoreFilter_Source f opt store = True"

definition distinctScoreFilter_Target ::
  "(string list \<Rightarrow> StoreInfo list \<Rightarrow> StoreInfo \<Rightarrow> real) \<Rightarrow>
   distinctScoreFilter \<Rightarrow> Options \<Rightarrow> StoreInfo \<Rightarrow> bool" where
  "distinctScoreFilter_Target DistinctScore f opt store =
     (DistinctScore (distinct_labels f) (distinct_stores f) store \<ge> safeScore f)"

text \<open>
  The special-use filter, lines 664-718. \<^verbatim>\<open>placement.LabelConstraint\<close> is built here
  field by field; its method \<^verbatim>\<open>MatchStore\<close> and \<^verbatim>\<open>StoreInfo.IsLowSpace\<close> are not among
  the sources and are the parameters \<open>MatchStore\<close> and \<open>IsLowSpace\<close>.
\<close>

record LabelConstraint =
  Key :: string
  Op :: string
  Values :: "string list"

record specialUseFilter =
  special_scope :: string
  special_constraint :: LabelConstraint

definition SpecialUseKey :: string where "SpecialUseKey = ''specialUse''"
definition SpecialUseHotRegion :: string where "SpecialUseHotRegion = ''hotRegion''"
definition SpecialUseReserved :: string where "SpecialUseReserved = ''reserved''"

definition allSpecialUses :: "string list" where
  "allSpecialUses = [SpecialUseHotRegion, SpecialUseReserved]"

text \<open>
  The constructor's loop, lines 674-678: the special uses that no element of
  \<^verbatim>\<open>allowUses\<close> equals (\<^verbatim>\<open>slice.NoneOf\<close>), in order.
\<close>

fun disallowedUses :: "string list \<Rightarrow> string list \<Rightarrow> string list" where
  "disallowedUses [] allowUses = []"
| "disallowedUses (v # rest) allowUses =
     (if list_all (\<lambda>a. a \<noteq> v) allowUses then v # disallowedUses rest allowUses
      else disallowedUses rest allowUses)"

definition NewSpecialUseFilter :: "string \<Rightarrow> string list \<Rightarrow> specialUseFilter" where
  "NewSpecialUseFilter sc allowUses =
     \<lparr>special_scope = sc,
      special_constraint =
        \<lparr>Key = SpecialUseKey, Op = ''in'', Values = disallowedUses allSpecialUses allowUses\<rparr>\<rparr>"

definition specialUseFilter_Source ::
  "(StoreInfo \<Rightarrow> real \<Rightarrow> bool) \<Rightarrow> (LabelConstraint \<Rightarrow> StoreInfo \<Rightarrow> bool) \<Rightarrow>
   specialUseFilter \<Rightarrow> Options \<Rightarrow> StoreInfo \<Rightarrow> bool" where
  "specialUseFilter_Source IsLowSpace MatchStore f opt store =
     (if IsLowSpace store (GetLowSpaceRatio opt) then True
      else \<not> MatchStore (special_constraint f) store)"

definition specialUseFilter_Target ::
  "(LabelConstraint \<Rightarrow> StoreInfo \<Rightarrow> bool) \<Rightarrow>
   specialUseFilter \<Rightarrow> Options \<Rightarrow> StoreInfo \<Rightarrow> bool" where
  "specialUseFilter_Target MatchStore f opt store = (\<not> MatchStore (special_constraint f) store)"

text \<open>
  Modelled from the spec: \<^verbatim>\<open>LabelConstraint.MatchStore\<close> for the operator \<^verbatim>\<open>in\<close> of
  section 4.2 (the store's value for the key is one of the listed values); every other
  operator is left unmatched here. The special-use filter only builds constraints with
  \<^verbatim>\<open>in\<close>, and its properties are stated for this \<open>MatchStore\<close>.
\<close>

definition matchStoreIn :: "LabelConstraint \<Rightarrow> StoreInfo \<Rightarrow> bool" where
  "matchStoreIn c store =
     (Op c = ''in'' \<and>
      (case map_of (GetLabels store) (Key c) of None \<Rightarrow> False | Some v \<Rightarrow> v \<in> set (Values c)))"

text \<open>
  Modelled from the spec: \<^verbatim>\<open>StoreInfo.IsLowSpace\<close> as the low-space test of section 4.3,
  used/capacity at or above the ratio. Used to instantiate \<open>IsLowSpace\<close> on concrete
  stores with a positive capacity.
\<close>

definition usedRatioAtLeast :: "StoreInfo \<Rightarrow> real \<Rightarrow> bool" where
  "usedRatioAtLeast store ratio = (GetUsedSize store / GetCapacity store \<ge> ratio)"

subsection \<open>Operators\<close>

text \<open>
  Modelled from the spec: package \<^verbatim>\<open>operator\<close> is not among the sources. Section 3 of
  the specification lists the statuses and says which of them are end statuses. An
  operator is represented by what its methods return when \<^verbatim>\<open>calcPendingWeight\<close> and
  \<^verbatim>\<open>addPendingInfluence\<close> call them: \<open>SinceReachTimeOf op st\<close> stands for
  \<^verbatim>\<open>time.Since(op.GetReachTimeOf(st))\<close>, an elapsed time in nanoseconds, and \<open>Status\<close>
  is read after the two checks, as in the source.
\<close>

datatype OpStatus = CREATED | STARTED | SUCCESS | CANCELED | REPLACED | EXPIRED | TIMEOUT

text \<open>
  Modelled from the spec: \<^verbatim>\<open>operator.IsEndStatus\<close>. The end statuses of section 3 are
  Success, Timeout, Expired, Cancelled and Replaced.
\<close>

definition IsEndStatus :: "OpStatus \<Rightarrow> bool" where
  "IsEndStatus st = (st = SUCCESS \<or> st = TIMEOUT \<or> st = EXPIRED \<or> st = CANCELED \<or> st = REPLACED)"

record Operator =
  RegionID :: uint64
  CheckExpired :: bool
  CheckTimeout :: bool
  Status :: OpStatus
  SinceReachTimeOf :: "OpStatus \<Rightarrow> nat"

subsection \<open>Scatter (region_scatterer.go, lines 148-160)\<close>

text \<open>
  \<^verbatim>\<open>opt.IsRegionReplicated\<close> is not among the sources and is the parameter
  \<open>IsRegionReplicated\<close>; the cluster handle stays abstract. \<open>scatterRegion\<close> stands for
  the operator that \<^verbatim>\<open>r.scatterRegion(region, group)\<close> returns, \<open>None\<close> when it returns nil.
  The result is Go's pair (operator, error).
\<close>

datatype ScatterError = NotFullyReplicated uint64 | NoLeader uint64

definition Scatter ::
  "('c \<Rightarrow> RegionInfo \<Rightarrow> bool) \<Rightarrow> (RegionInfo \<Rightarrow> string \<Rightarrow> Operator option) \<Rightarrow>
   'c \<Rightarrow> RegionInfo \<Rightarrow> string \<Rightarrow> Operator option \<times> ScatterError option" where
  "Scatter IsRegionReplicated scatterRegion cluster region grp =
     (if \<not> IsRegionReplicated cluster region
        then (None, Some (NotFullyReplicated (GetRegionID region)))
      else if GetLeader region = None
        then (None, Some (NoLeader (GetRegionID region)))
      else (scatterRegion region grp, None))"

subsection \<open>The hot-region scheduler (hot_region.go)\<close>

text \<open>The constants \<^verbatim>\<open>write\<close> and \<^verbatim>\<open>read\<close> are spelled \<open>Write\<close> and \<open>Read\<close>.\<close>

datatype rwType = Write | Read

datatype opType = movePeer | transferLeader

datatype resourceType = writePeer | writeLeader | readLeader

text \<open>
  Lines 1209-1222. The panic at the end of the source is reached only by integers outside
  the declared constants, which the datatypes do not contain.
\<close>

fun toResourceType :: "rwType \<Rightarrow> opType \<Rightarrow> resourceType" where
  "toResourceType Write movePeer = writePeer"
| "toResourceType Write transferLeader = writeLeader"
| "toResourceType Read _ = readLeader"

text \<open>The integer behind an \<^verbatim>\<open>opType\<close>, used to index the two-slot arrays.\<close>

fun opIndex :: "opType \<Rightarrow> nat" where
  "opIndex movePeer = 0"
| "opIndex transferLeader = 1"

text \<open>
  The getters of \<^verbatim>\<open>hotRegionSchedulerConfig\<close> that the modelled functions call.
\<close>

record hotRegionSchedulerConfig =
  GetMaxZombieDuration :: int
  GetSrcToleranceRatio :: real
  GetMaxPeerNumber :: int

record Influence =
  infl_ByteRate :: real
  infl_KeyRate :: real
  infl_Count :: real

text \<open>
  The scheduler's state across calls. \<^verbatim>\<open>pendings[ty]\<close> is a set keyed by freshly allocated
  \<^verbatim>\<open>*pendingInfluence\<close> pointers, so every insertion adds an element: it is the list of
  the inserted values, newest first. The type \<open>'p\<close> of a pending influence and its
  constructor \<^verbatim>\<open>newPendingInfluence\<close> are not among the sources. A value of
  \<^verbatim>\<open>regionPendings\<close> is the array \<^verbatim>\<open>[2]*operator.Operator\<close>, a list of two slots.
\<close>

record 'p hotScheduler =
  pendings :: "resourceType \<Rightarrow> 'p list"
  regionPendings :: "uint64 \<rightharpoonup> Operator option list"
  conf :: hotRegionSchedulerConfig

text \<open>Lines 240-266. \<^verbatim>\<open>StoresStats\<close> is represented by what its four totals return.\<close>

record StoresStats =
  TotalBytesWriteRate :: real
  TotalKeysWriteRate :: real
  TotalBytesReadRate :: real
  TotalKeysReadRate :: real

definition divisor :: real where "divisor = 1000 * 2"
definition hotWriteRegionMinFlowRate :: uint64 where "hotWriteRegionMinFlowRate = 16 * 1024"
definition hotReadRegionMinFlowRate :: uint64 where "hotReadRegionMinFlowRate = 128 * 1024"
definition hotWriteRegionMinKeyRate :: uint64 where "hotWriteRegionMinKeyRate = 256"
definition hotReadRegionMinKeyRate :: uint64 where "hotReadRegionMinKeyRate = 512"

text \<open>
  Go's conversion \<^verbatim>\<open>uint64(f)\<close> drops the fraction. For a value outside the range of
  \<^verbatim>\<open>uint64\<close> Go leaves the result to the implementation; here it is reduced modulo \<open>2^64\<close>.
\<close>

definition uint64_of_float64 :: "real \<Rightarrow> uint64" where
  "uint64_of_float64 x = word_of_int (if 0 \<le> x then \<lfloor>x\<rfloor> else \<lceil>x\<rceil>)"

definition raise_to :: "uint64 \<Rightarrow> uint64 \<Rightarrow> uint64" where
  "raise_to floor_value v = (if v < floor_value then floor_value else v)"

definition getHotRegionThreshold :: "StoresStats \<Rightarrow> rwType \<Rightarrow> uint64 list" where
  "getHotRegionThreshold stats typ =
     (case typ of
        Write \<Rightarrow>
          [raise_to hotWriteRegionMinFlowRate (uint64_of_float64 (TotalBytesWriteRate stats / divisor)),
           raise_to hotWriteRegionMinKeyRate (uint64_of_float64 (TotalKeysWriteRate stats / divisor))]
      | Read \<Rightarrow>
          [raise_to hotReadRegionMinFlowRate (uint64_of_float64 (TotalBytesReadRate stats / divisor)),
           raise_to hotReadRegionMinKeyRate (uint64_of_float64 (TotalKeysWriteRate stats / divisor))])"

text \<open>
  Lines 422-443. The two metric counters are not part of the state. The result is the
  returned boolean and the scheduler after the call.
\<close>

definition addPendingInfluence ::
  "(Operator \<Rightarrow> uint64 \<Rightarrow> uint64 \<Rightarrow> Influence \<Rightarrow> 'p) \<Rightarrow> 'p hotScheduler \<Rightarrow>
   Operator \<Rightarrow> uint64 \<Rightarrow> uint64 \<Rightarrow> Influence \<Rightarrow> rwType \<Rightarrow> opType \<Rightarrow> bool \<times> 'p hotScheduler" where
  "addPendingInfluence newPendingInfluence h op srcStore dstStore infl rwTy opTy =
     (let regionID = RegionID op in
      case regionPendings h regionID of
        Some _ \<Rightarrow> (False, h)
      | None \<Rightarrow>
          (let influence = newPendingInfluence op srcStore dstStore infl;
               rcTy = toResourceType rwTy opTy;
               h1 = h\<lparr>pendings := (pendings h)(rcTy := influence # pendings h rcTy)\<rparr>;
               h2 = h1\<lparr>regionPendings := (regionPendings h1)(regionID \<mapsto> [None, None])\<rparr>;
               tmp = (case regionPendings h2 regionID of Some a \<Rightarrow> a | None \<Rightarrow> [None, None]);
               tmp' = tmp[opIndex opTy := Some op]
           in (True, h2\<lparr>regionPendings := (regionPendings h2)(regionID \<mapsto> tmp')\<rparr>)))"

text \<open>Lines 1125-1145.\<close>

definition calcPendingWeight :: "'p hotScheduler \<Rightarrow> Operator \<Rightarrow> real" where
  "calcPendingWeight h op =
     (if CheckExpired op \<or> CheckTimeout op then 0
      else
        (let status = Status op in
         if \<not> IsEndStatus status then 1
         else
           (case status of
              SUCCESS \<Rightarrow>
                (let zombieDur = int (SinceReachTimeOf op status);
                     maxZombieDur = GetMaxZombieDuration (conf h)
                 in if zombieDur \<ge> maxZombieDur then 0
                    else real_of_int (maxZombieDur - zombieDur) / real_of_int maxZombieDur)
            | _ \<Rightarrow> 0)))"

subsection \<open>The balance solver (hot_region.go, lines 486-702)\<close>

text \<open>
  \<^verbatim>\<open>storeLoad\<close> and \<^verbatim>\<open>storeLoadPred\<close> are declared outside the sources; their fields are
  the ones hot_region.go reads and writes. The method \<^verbatim>\<open>LoadPred.min()\<close> is the parameter
  \<open>lpMin\<close>. A \<^verbatim>\<open>*statistics.HotPeerStat\<close> is an address (\<open>peerRef\<close>); the solver's
  \<open>peerStat\<close> gives the statistic stored there, so that two list entries are the same
  peer exactly when the addresses are equal, as for the pointer-keyed map \<^verbatim>\<open>union\<close>.
\<close>

record storeLoad =
  ByteRate :: real
  KeyRate :: real
  Count :: real
  ExpByteRate :: real
  ExpKeyRate :: real
  ExpCount :: real

record storeLoadPred =
  Current :: storeLoad
  Future :: storeLoad

type_synonym peerRef = nat

record HotPeerStat =
  PeerRegionID :: uint64
  GetByteRate :: real
  GetKeyRate :: real

record storeLoadDetail =
  LoadPred :: storeLoadPred
  HotPeers :: "peerRef list"

text \<open>
  The solver: the scheduler it belongs to, the cluster's store lookup, the load details
  and the source store of the current solution. The Go map \<^verbatim>\<open>stLoadDetail\<close> is the list
  of its entries, in the order in which a \<^verbatim>\<open>range\<close> loop visits them; the keys of a
  Go map are distinct, and a lookup is \<open>map_of\<close>.
\<close>

record 'p balanceSolver =
  sche :: "'p hotScheduler"
  GetStore :: "uint64 \<rightharpoonup> StoreInfo"
  stLoadDetail :: "(uint64 \<times> storeLoadDetail) list"
  peerStat :: "peerRef \<Rightarrow> HotPeerStat"
  cur_srcStoreID :: uint64

text \<open>Lines 627-645: the loop over the entries, then the function.\<close>

fun filterSrcStores_loop ::
  "(storeLoadPred \<Rightarrow> storeLoad) \<Rightarrow> 'p balanceSolver \<Rightarrow> (uint64 \<times> storeLoadDetail) list \<Rightarrow>
   (uint64 \<rightharpoonup> storeLoadDetail) \<Rightarrow> (uint64 \<rightharpoonup> storeLoadDetail)" where
  "filterSrcStores_loop lpMin bs [] ret = ret"
| "filterSrcStores_loop lpMin bs ((ident, detail) # rest) ret =
     (if GetStore bs ident = None then filterSrcStores_loop lpMin bs rest ret
      else if length (HotPeers detail) = 0 then filterSrcStores_loop lpMin bs rest ret
      else if ByteRate (lpMin (LoadPred detail))
                > GetSrcToleranceRatio (conf (sche bs)) * ExpByteRate (Future (LoadPred detail))
              \<and> KeyRate (lpMin (LoadPred detail))
                > GetSrcToleranceRatio (conf (sche bs)) * ExpKeyRate (Future (LoadPred detail))
        then filterSrcStores_loop lpMin bs rest (ret(ident \<mapsto> detail))
      else filterSrcStores_loop lpMin bs rest ret)"

definition filterSrcStores ::
  "(storeLoadPred \<Rightarrow> storeLoad) \<Rightarrow> 'p balanceSolver \<Rightarrow> (uint64 \<rightharpoonup> storeLoadDetail)" where
  "filterSrcStores lpMin bs = filterSrcStores_loop lpMin bs (stLoadDetail bs) Map.empty"

text \<open>The two rate comparisons of lines 637-638 on their own.\<close>

definition ratesExceed :: "(storeLoadPred \<Rightarrow> storeLoad) \<Rightarrow> 'p balanceSolver \<Rightarrow> storeLoadDetail \<Rightarrow> bool" where
  "ratesExceed lpMin bs detail =
     (ByteRate (lpMin (LoadPred detail))
        > GetSrcToleranceRatio (conf (sche bs)) * ExpByteRate (Future (LoadPred detail))
      \<and> KeyRate (lpMin (LoadPred detail))
        > GetSrcToleranceRatio (conf (sche bs)) * ExpKeyRate (Future (LoadPred detail)))"

text \<open>
  Modelled from the spec: \<^verbatim>\<open>LoadPred.min()\<close> as the "min-projected" load of section 4.7,
  the smaller of the current and the predicted value on each axis. Used to instantiate
  \<open>lpMin\<close> on concrete loads.
\<close>

definition minLoadPred :: "storeLoadPred \<Rightarrow> storeLoad" where
  "minLoadPred lp =
     \<lparr>ByteRate = min (ByteRate (Current lp)) (ByteRate (Future lp)),
      KeyRate = min (KeyRate (Current lp)) (KeyRate (Future lp)),
      Count = min (Count (Current lp)) (Count (Future lp)),
      ExpByteRate = 0, ExpKeyRate = 0, ExpCount = 0\<rparr>"

text \<open>
  Lines 647-702. \<^verbatim>\<open>sort.Slice\<close> is not stable: among elements that the comparison does
  not separate any order may result. \<open>sortSlice\<close> is insertion sort, one of the orders
  \<^verbatim>\<open>sort.Slice\<close> may produce, and the only one when the compared rates are distinct.
\<close>

fun insertSorted :: "('a \<Rightarrow> 'a \<Rightarrow> bool) \<Rightarrow> 'a \<Rightarrow> 'a list \<Rightarrow> 'a list" where
  "insertSorted before x [] = [x]"
| "insertSorted before x (y # ys) =
     (if before y x then y # insertSorted before x ys else x # y # ys)"

definition sortSlice :: "('a \<Rightarrow> 'a \<Rightarrow> bool) \<Rightarrow> 'a list \<Rightarrow> 'a list" where
  "sortSlice before xs = foldr (insertSorted before) xs []"

text \<open>
  \<^verbatim>\<open>appendItem\<close>, lines 653-658, and its use in the two result loops: the peers whose
  region has no entry in \<^verbatim>\<open>regionPendings\<close>, in order.
\<close>

fun appendItems :: "'p balanceSolver \<Rightarrow> peerRef list \<Rightarrow> peerRef list" where
  "appendItems bs [] = []"
| "appendItems bs (item # rest) =
     (if regionPendings (sche bs) (PeerRegionID (peerStat bs item)) = None
        then item # appendItems bs rest
      else appendItems bs rest)"

text \<open>
  One inner loop, lines 680-687 and 688-695: pop peers until one is not in \<^verbatim>\<open>union\<close>,
  add it and stop. The result is the rest of the sorted slice and the new \<^verbatim>\<open>union\<close>,
  kept in insertion order.
\<close>

fun takeNew :: "peerRef list \<Rightarrow> peerRef list \<Rightarrow> peerRef list \<times> peerRef list" where
  "takeNew [] unionL = ([], unionL)"
| "takeNew (peer # rest) unionL =
     (if peer \<in> set unionL then takeNew rest unionL else (rest, unionL @ [peer]))"

lemma takeNew_length: "length (fst (takeNew xs u)) \<le> length xs"
  by (induction xs) auto

lemma takeNew_shorter: "xs \<noteq> [] \<Longrightarrow> length (fst (takeNew xs u)) < length xs"
  by (cases xs) (auto simp: le_imp_less_Suc takeNew_length)

text \<open>
  The outer loop, line 679. When both slices are empty and \<^verbatim>\<open>union\<close> is still shorter
  than \<^verbatim>\<open>maxPeerNum\<close>, an iteration changes nothing and the source loops forever: that
  is the result \<open>None\<close>. Otherwise an iteration shortens a slice.
\<close>

function unionLoop :: "int \<Rightarrow> peerRef list \<Rightarrow> peerRef list \<Rightarrow> peerRef list \<Rightarrow> peerRef list option" where
  "unionLoop maxPeerNum byteSort keySort unionL =
     (if int (length unionL) < maxPeerNum then
        (if byteSort = [] \<and> keySort = [] then None
         else unionLoop maxPeerNum
                (fst (takeNew byteSort unionL))
                (fst (takeNew keySort (snd (takeNew byteSort unionL))))
                (snd (takeNew keySort (snd (takeNew byteSort unionL)))))
      else Some unionL)"
  by pat_completeness auto
termination
proof (relation "measure (\<lambda>(m, b, k, u). length b + length k)")
  show "wf (measure (\<lambda>(m, b, k, u). length b + length k))" by simp
next
  fix maxPeerNum :: int and byteSort keySort unionL :: "peerRef list"
  assume "\<not> (byteSort = [] \<and> keySort = [])"
  then consider "byteSort \<noteq> []" | "keySort \<noteq> []" by blast
  then have "length (fst (takeNew byteSort unionL))
               + length (fst (takeNew keySort (snd (takeNew byteSort unionL))))
             < length byteSort + length keySort"
  proof cases
    case 1
    then show ?thesis
      using takeNew_shorter [of byteSort unionL]
            takeNew_length [of keySort "snd (takeNew byteSort unionL)"] by linarith
  next
    case 2
    then show ?thesis
      using takeNew_length [of byteSort unionL]
            takeNew_shorter [of keySort "snd (takeNew byteSort unionL)"] by linarith
  qed
  then show "((maxPeerNum, fst (takeNew byteSort unionL),
               fst (takeNew keySort (snd (takeNew byteSort unionL))),
               snd (takeNew keySort (snd (takeNew byteSort unionL)))),
              (maxPeerNum, byteSort, keySort, unionL))
             \<in> measure (\<lambda>(m, b, k, u). length b + length k)"
    by (simp add: case_prod_beta)
qed

declare unionLoop.simps [simp del]

text \<open>
  The length of \<^verbatim>\<open>union\<close> at the end of the outer loop when it starts with \<open>n\<close>
  peers and every iteration finds a new peer in each slice.
\<close>

definition loopLength :: "int \<Rightarrow> nat \<Rightarrow> nat" where
  "loopLength m n = (if m \<le> int n then n else if even (m - int n) then nat m else nat m + 1)"

text \<open>
  The outcome of \<^verbatim>\<open>filterHotPeers\<close>: the returned slice, a nil dereference when the
  current source store has no load detail, or no return at all.
\<close>

datatype hotPeersResult = Returned "peerRef list" | NilDereference | NeverReturns

definition filterHotPeers :: "'p balanceSolver \<Rightarrow> hotPeersResult" where
  "filterHotPeers bs =
     (case map_of (stLoadDetail bs) (cur_srcStoreID bs) of
        None \<Rightarrow> NilDereference
      | Some detail \<Rightarrow>
          (let ret = HotPeers detail;
               maxPeerNum = GetMaxPeerNumber (conf (sche bs))
           in if int (length ret) \<le> maxPeerNum then Returned (appendItems bs ret)
              else
                (let byteSort = sortSlice (\<lambda>i j. GetByteRate (peerStat bs i) > GetByteRate (peerStat bs j)) ret;
                     keySort = sortSlice (\<lambda>i j. GetKeyRate (peerStat bs i) > GetKeyRate (peerStat bs j)) ret
                 in case unionLoop maxPeerNum byteSort keySort [] of
                      None \<Rightarrow> NeverReturns
                    | Some unionL \<Rightarrow> Returned (appendItems bs unionL))))"

subsection \<open>Concrete stores, operators and solvers\<close>

text \<open>
  The inputs at which the properties below are evaluated. Durations are nanoseconds:
  thirty minutes of \<^verbatim>\<open>MaxStoreDownTime\<close>, twenty-four seconds of \<^verbatim>\<open>MaxZombieDuration\<close>.
\<close>

definition defaultOptions :: Options where
  "defaultOptions = \<lparr>GetMaxStoreDownTime = 1800000000000, GetLowSpaceRatio = 8 / 10\<rparr>"

definition plainStore :: StoreInfo where
  "plainStore =
     \<lparr>GetID = 1, GetState = Up, GetLabels = [(''zone'', ''a'')], DownTime = 0,
      GetUsedSize = 10, GetCapacity = 100\<rparr>"

text \<open>A store that is Up and whose last heartbeat is one hour old.\<close>

definition staleUpStore :: StoreInfo where
  "staleUpStore = plainStore\<lparr>DownTime := 3600000000000\<rparr>"

text \<open>Two stores labelled for hot regions, one nearly full and one nearly empty.\<close>

definition fullHotStore :: StoreInfo where
  "fullHotStore =
     plainStore\<lparr>GetID := 4, GetLabels := [(''specialUse'', ''hotRegion'')], GetUsedSize := 90\<rparr>"

definition emptyHotStore :: StoreInfo where
  "emptyHotStore = plainStore\<lparr>GetID := 5, GetLabels := [(''specialUse'', ''hotRegion'')]\<rparr>"

text \<open>
  A score to instantiate \<open>DistinctScore\<close> on concrete stores: the number of stores whose
  labels differ from the candidate's. It is not the score of \<^verbatim>\<open>core.DistinctScore\<close>.
\<close>

definition differingStores :: "string list \<Rightarrow> StoreInfo list \<Rightarrow> StoreInfo \<Rightarrow> real" where
  "differingStores labels sts other =
     real (length (filter (\<lambda>s. GetLabels s \<noteq> GetLabels other) sts))"

definition zoneStores :: "StoreInfo list" where
  "zoneStores =
     [plainStore,
      plainStore\<lparr>GetID := 2, GetLabels := [(''zone'', ''b'')]\<rparr>,
      plainStore\<lparr>GetID := 3, GetLabels := [(''zone'', ''b'')]\<rparr>]"

definition inFlightOp :: Operator where
  "inFlightOp =
     \<lparr>RegionID = 7, CheckExpired = False, CheckTimeout = False, Status = STARTED,
      SinceReachTimeOf = (\<lambda>st. 0)\<rparr>"

definition threeReplicaRegion :: RegionInfo where
  "threeReplicaRegion =
     \<lparr>GetRegionID = 7,
      GetPeers = [\<lparr>PeerId = 11, StoreId = 1, IsLearner = False\<rparr>,
                  \<lparr>PeerId = 12, StoreId = 2, IsLearner = False\<rparr>,
                  \<lparr>PeerId = 13, StoreId = 3, IsLearner = False\<rparr>],
      GetLeader = Some \<lparr>PeerId = 11, StoreId = 1, IsLearner = False\<rparr>\<rparr>"

text \<open>
  Modelled from the spec: \<^verbatim>\<open>opt.IsRegionReplicated\<close> with placement rules off, where
  section 3 asks for a peer count equal to the configured replica count. The cluster is
  reduced to that count. Used to instantiate \<open>IsRegionReplicated\<close> on concrete regions.
\<close>

definition hasTargetReplicas :: "nat \<Rightarrow> RegionInfo \<Rightarrow> bool" where
  "hasTargetReplicas maxReplicas region = (length (GetPeers region) = maxReplicas)"

definition idleConf :: hotRegionSchedulerConfig where
  "idleConf =
     \<lparr>GetMaxZombieDuration = 24000000000, GetSrcToleranceRatio = 105 / 100,
      GetMaxPeerNumber = 1000\<rparr>"

definition idleScheduler :: "unit hotScheduler" where
  "idleScheduler = \<lparr>pendings = (\<lambda>ty. []), regionPendings = Map.empty, conf = idleConf\<rparr>"

text \<open>
  A load of 10 on both axes against an expectation of 5, a store with that load and no hot
  peer, and a store with that load and two hot peers, each the hottest on one axis.
\<close>

definition busyLoad :: storeLoad where
  "busyLoad =
     \<lparr>ByteRate = 10, KeyRate = 10, Count = 0, ExpByteRate = 5, ExpKeyRate = 5, ExpCount = 0\<rparr>"

definition noHotPeerDetail :: storeLoadDetail where
  "noHotPeerDetail = \<lparr>LoadPred = \<lparr>Current = busyLoad, Future = busyLoad\<rparr>, HotPeers = []\<rparr>"

definition twoHotPeerDetail :: storeLoadDetail where
  "twoHotPeerDetail = noHotPeerDetail\<lparr>HotPeers := [0, 1]\<rparr>"

definition noHotPeerSolver :: "unit balanceSolver" where
  "noHotPeerSolver =
     \<lparr>sche = idleScheduler,
      GetStore = [1 \<mapsto> plainStore],
      stLoadDetail = [(1, noHotPeerDetail)],
      peerStat = (\<lambda>r. \<lparr>PeerRegionID = 0, GetByteRate = 0, GetKeyRate = 0\<rparr>),
      cur_srcStoreID = 1\<rparr>"

definition twoHotPeerSolver :: "unit balanceSolver" where
  "twoHotPeerSolver =
     \<lparr>sche = idleScheduler\<lparr>conf := idleConf\<lparr>GetMaxPeerNumber := 1\<rparr>\<rparr>,
      GetStore = [1 \<mapsto> plainStore],
      stLoadDetail = [(1, twoHotPeerDetail)],
      peerStat = (\<lambda>r. if r = 0 then \<lparr>PeerRegionID = 1, GetByteRate = 2, GetKeyRate = 1\<rparr>
                       else \<lparr>PeerRegionID = 2, GetByteRate = 1, GetKeyRate = 2\<rparr>),
      cur_srcStoreID = 1\<rparr>"

section \<open>Properties\<close>

subsection \<open>selectedStores\<close>

lemma get_bump_same:
  "get (bump_distribution s ident grp) ident grp = get s ident grp + 1"
  by (simp add: get_def bump_distribution_def Let_def split: option.splits)

lemma get_bump_other:
  "(ident', grp') \<noteq> (ident, grp) \<Longrightarrow>
   get (bump_distribution s ident grp) ident' grp' = get s ident' grp'"
  by (auto simp: get_def bump_distribution_def Let_def split: option.splits)

lemma get_stores_update [simp]:
  "get (s\<lparr>stores := m\<rparr>) ident grp = get s ident grp"
  by (simp add: get_def)

lemma put_True_get_same:
  "put s ident grp = (True, s') \<Longrightarrow> get s' ident grp = get s ident grp + 1"
  by (auto simp: put_def Let_def get_bump_same split: if_splits)

lemma put_True_get_other:
  "put s ident grp = (True, s') \<Longrightarrow> (ident', grp') \<noteq> (ident, grp) \<Longrightarrow>
   get s' ident' grp' = get s ident' grp'"
  by (auto simp: put_def Let_def get_bump_other split: if_splits)

lemma checkExist_bump [simp]:
  "checkExist (bump_distribution s ident grp) = checkExist s"
  by (simp add: bump_distribution_def Let_def)

lemma stores_bump [simp]:
  "stores (bump_distribution s ident grp) = stores s"
  by (simp add: bump_distribution_def Let_def)

lemma checkExist_put: "checkExist (snd (put s ident grp)) = checkExist s"
  by (simp add: put_def Let_def)

lemma placed_in_put_keeps:
  "placed_in s ident grp \<Longrightarrow> placed_in (snd (put s ident' grp')) ident grp"
  by (auto simp: placed_in_def put_def Let_def split: option.splits)

lemma put_True_placed:
  "checkExist s \<Longrightarrow> put s ident grp = (True, s') \<Longrightarrow> checkExist s' \<and> placed_in s' ident grp"
  by (auto simp: placed_in_def put_def Let_def split: if_splits)

lemma puts_keeps:
  "checkExist s \<and> placed_in s ident grp \<Longrightarrow>
   checkExist (puts s ps) \<and> placed_in (puts s ps) ident grp"
proof (induction ps arbitrary: s)
  case Nil
  then show ?case by simp
next
  case (Cons p ps)
  obtain i g where p: "p = (i, g)" by (cases p)
  have "checkExist (snd (put s i g)) \<and> placed_in (snd (put s i g)) ident grp"
    using Cons.prems by (simp add: checkExist_put placed_in_put_keeps)
  then show ?case using Cons.IH p by simp
qed

lemma put_placed_False:
  "checkExist s \<Longrightarrow> placed_in s ident grp \<Longrightarrow> put s ident grp = (False, s)"
  by (auto simp: placed_in_def put_def Let_def split: option.splits)

text \<open>
  C10. After \<^verbatim>\<open>put(id, group)\<close> returns true, \<^verbatim>\<open>get(id, group)\<close> is one more than before
  (a \<^verbatim>\<open>uint64\<close> increment, and numerically one more unless the counter stood at
  \<open>2^64 - 1\<close>) and the count of every other (store, group) pair is unchanged. When
  \<^verbatim>\<open>checkExist\<close> is true, a later \<^verbatim>\<open>put(id, group)\<close> for the same pair, after any number
  of other \<^verbatim>\<open>put\<close> calls and no \<^verbatim>\<open>reset\<close>, returns false and leaves the tracker, hence
  every count, unchanged.
\<close>

theorem selectedStores_put_get:
  "(put s ident grp = (True, s') \<longrightarrow>
      get s' ident grp = get s ident grp + 1
      \<and> (get s ident grp \<noteq> - 1 \<longrightarrow> unat (get s' ident grp) = unat (get s ident grp) + 1)
      \<and> (\<forall>ident' grp'. (ident', grp') \<noteq> (ident, grp) \<longrightarrow>
            get s' ident' grp' = get s ident' grp'))
   \<and> (checkExist s \<and> put s ident grp = (True, s') \<longrightarrow>
        put (puts s' ps) ident grp = (False, puts s' ps)
        \<and> (\<forall>ident' grp'. get (snd (put (puts s' ps) ident grp)) ident' grp'
              = get (puts s' ps) ident' grp'))"
proof (intro conjI impI allI)
  assume p: "put s ident grp = (True, s')"
  show same: "get s' ident grp = get s ident grp + 1"
    using p by (rule put_True_get_same)
  {
    assume "get s ident grp \<noteq> - 1"
    then have "1 + get s ident grp \<noteq> 0"
      by (metis add_eq_0_iff)
    then have "unat (1 + get s ident grp) = Suc (unat (get s ident grp))"
      by (rule unatSuc)
    then show "unat (get s' ident grp) = unat (get s ident grp) + 1"
      using same by (simp add: add.commute)
  }
  {
    fix ident' grp'
    assume "(ident', grp') \<noteq> (ident, grp)"
    then show "get s' ident' grp' = get s ident' grp'"
      using p by (rule put_True_get_other [rotated])
  }
next
  assume a: "checkExist s \<and> put s ident grp = (True, s')"
  then have "checkExist s' \<and> placed_in s' ident grp"
    using put_True_placed by blast
  then have k: "checkExist (puts s' ps) \<and> placed_in (puts s' ps) ident grp"
    by (rule puts_keeps)
  then show f: "put (puts s' ps) ident grp = (False, puts s' ps)"
    by (simp add: put_placed_False)
  fix ident' grp'
  show "get (snd (put (puts s' ps) ident grp)) ident' grp' = get (puts s' ps) ident' grp'"
    by (simp add: f)
qed

theorem selectedStores_put_get_witness:
  "put (newSelectedStores True) 1 ''g'' = (True, snd (put (newSelectedStores True) 1 ''g''))
   \<and> checkExist (newSelectedStores True)
   \<and> get (newSelectedStores True) 1 ''g'' \<noteq> - 1
   \<and> (2, ''g'') \<noteq> (1 :: uint64, ''g'')
   \<and> get (snd (put (newSelectedStores True) 1 ''g'')) 1 ''g'' = 1
   \<and> unat (get (snd (put (newSelectedStores True) 1 ''g'')) 1 ''g'') = 1
   \<and> get (snd (put (newSelectedStores True) 1 ''g'')) 2 ''g'' = 0
   \<and> fst (put (puts (snd (put (newSelectedStores True) 1 ''g'')) [(2, ''g'')]) 1 ''g'') = False"
proof -
  let ?s = "newSelectedStores True"
  let ?s' = "snd (put ?s 1 ''g'')"
  have p: "put ?s 1 ''g'' = (True, ?s')"
    by (simp add: put_def newSelectedStores_def Let_def)
  have c: "checkExist ?s" by (simp add: newSelectedStores_def)
  have g0: "get ?s 1 ''g'' = 0" "get ?s 2 ''g'' = 0"
    by (simp_all add: get_def newSelectedStores_def)
  have n: "get ?s 1 ''g'' \<noteq> - 1" by (simp add: g0)
  have d: "(2, ''g'') \<noteq> (1 :: uint64, ''g'')" by simp
  note t = selectedStores_put_get [of ?s 1 "''g''" ?s' "[(2, ''g'')]"]
  from t p c n d g0 show ?thesis by simp
qed

subsection \<open>Scatter\<close>

text \<open>
  C1. \<^verbatim>\<open>Scatter\<close> returns an error and no operator when the region is not fully
  replicated or has no leader; for a fully replicated region with a leader it returns no
  error, and its operator is the one \<^verbatim>\<open>scatterRegion\<close> produced.
\<close>

theorem Scatter_errors:
  "(\<not> IsRegionReplicated cluster region \<or> GetLeader region = None
      \<longrightarrow> fst (Scatter IsRegionReplicated scatterRegion cluster region grp) = None
          \<and> snd (Scatter IsRegionReplicated scatterRegion cluster region grp) \<noteq> None)
   \<and> (IsRegionReplicated cluster region \<and> GetLeader region \<noteq> None
      \<longrightarrow> Scatter IsRegionReplicated scatterRegion cluster region grp
            = (scatterRegion region grp, None))"
  by (simp add: Scatter_def)

theorem Scatter_errors_witness:
  "\<not> hasTargetReplicas 5 threeReplicaRegion
   \<and> Scatter hasTargetReplicas (\<lambda>r g. Some inFlightOp) 5 threeReplicaRegion ''g''
       = (None, Some (NotFullyReplicated 7))
   \<and> hasTargetReplicas 3 (threeReplicaRegion\<lparr>GetLeader := None\<rparr>)
   \<and> Scatter hasTargetReplicas (\<lambda>r g. Some inFlightOp) 3 (threeReplicaRegion\<lparr>GetLeader := None\<rparr>) ''g''
       = (None, Some (NoLeader 7))
   \<and> hasTargetReplicas 3 threeReplicaRegion
   \<and> GetLeader threeReplicaRegion \<noteq> None
   \<and> Scatter hasTargetReplicas (\<lambda>r g. Some inFlightOp) 3 threeReplicaRegion ''g''
       = (Some inFlightOp, None)"
proof -
  have a: "\<not> hasTargetReplicas 5 threeReplicaRegion"
    and b: "hasTargetReplicas 3 (threeReplicaRegion\<lparr>GetLeader := None\<rparr>)"
    and c: "hasTargetReplicas 3 threeReplicaRegion"
    and d: "GetLeader threeReplicaRegion \<noteq> None"
    by (simp_all add: hasTargetReplicas_def threeReplicaRegion_def)
  have e: "GetRegionID threeReplicaRegion = 7"
    by (simp add: threeReplicaRegion_def)
  let ?scatter = "\<lambda>(r :: RegionInfo) (g :: string). Some inFlightOp"
  have under: "fst (Scatter hasTargetReplicas ?scatter 5 threeReplicaRegion ''g'') = None
      \<and> snd (Scatter hasTargetReplicas ?scatter 5 threeReplicaRegion ''g'') \<noteq> None"
    using a Scatter_errors [of hasTargetReplicas 5 threeReplicaRegion ?scatter "''g''"] by blast
  have leaderless: "fst (Scatter hasTargetReplicas ?scatter 3
                           (threeReplicaRegion\<lparr>GetLeader := None\<rparr>) ''g'') = None
      \<and> snd (Scatter hasTargetReplicas ?scatter 3
                 (threeReplicaRegion\<lparr>GetLeader := None\<rparr>) ''g'') \<noteq> None"
    using Scatter_errors [of hasTargetReplicas 3 "threeReplicaRegion\<lparr>GetLeader := None\<rparr>"
        ?scatter "''g''"] by simp
  have healthy: "Scatter hasTargetReplicas ?scatter 3 threeReplicaRegion ''g''
                   = (Some inFlightOp, None)"
    using c d Scatter_errors [of hasTargetReplicas 3 threeReplicaRegion ?scatter "''g''"] by blast
  have which: "snd (Scatter hasTargetReplicas ?scatter 5 threeReplicaRegion ''g'')
                 = Some (NotFullyReplicated 7)"
    "snd (Scatter hasTargetReplicas ?scatter 3 (threeReplicaRegion\<lparr>GetLeader := None\<rparr>) ''g'')
                 = Some (NoLeader 7)"
    using a b e by (simp_all add: Scatter_def)
  show ?thesis
    using a b c d under leaderless healthy which by (simp add: prod_eq_iff)
qed

subsection \<open>Filters\<close>

lemma newStores_filter: "newStores sts source = filter (\<lambda>s. GetID s \<noteq> GetID source) sts"
  by (induction sts) auto

text \<open>
  C2. The \<^verbatim>\<open>Target\<close> predicate of the filter built by \<^verbatim>\<open>NewDistinctScoreFilter\<close> is true
  exactly when the candidate's distinct score against the region's stores without the
  source store is at least the source store's distinct score against the same stores.
\<close>

theorem distinctScore_target_iff:
  "distinctScoreFilter_Target DistinctScore
      (NewDistinctScoreFilter DistinctScore sc labels sts source) opt store
   = (DistinctScore labels (filter (\<lambda>s. GetID s \<noteq> GetID source) sts) store
        \<ge> DistinctScore labels (filter (\<lambda>s. GetID s \<noteq> GetID source) sts) source)"
  by (simp add: distinctScoreFilter_Target_def NewDistinctScoreFilter_def newStores_filter)

theorem distinctScore_target_iff_witness:
  "distinctScoreFilter_Target differingStores
      (NewDistinctScoreFilter differingStores ''s'' [''zone''] zoneStores (zoneStores ! 2))
      defaultOptions (plainStore\<lparr>GetID := 9, GetLabels := [(''zone'', ''c'')]\<rparr>)
   \<and> differingStores [''zone''] (filter (\<lambda>s. GetID s \<noteq> 3) zoneStores) (zoneStores ! 2) = 1
   \<and> differingStores [''zone''] (filter (\<lambda>s. GetID s \<noteq> 3) zoneStores)
        (plainStore\<lparr>GetID := 9, GetLabels := [(''zone'', ''c'')]\<rparr>) = 2"
  using distinctScore_target_iff [of differingStores "''s''" "[''zone'']" zoneStores "zoneStores ! 2"
      defaultOptions "plainStore\<lparr>GetID := 9, GetLabels := [(''zone'', ''c'')]\<rparr>"]
  by (simp add: differingStores_def zoneStores_def plainStore_def)

text \<open>
  C3 as stated fails on the \<^verbatim>\<open>Target\<close> side: a store that is Up and whose last
  heartbeat is older than \<^verbatim>\<open>MaxStoreDownTime\<close> is accepted.
\<close>

theorem stateFilter_target_counterexample:
  "stateFilter_Target (NewStateFilter ''s'') defaultOptions staleUpStore
   \<noteq> (IsUp staleUpStore \<and> \<not> IsOffline staleUpStore
       \<and> DownTime staleUpStore \<le> GetMaxStoreDownTime defaultOptions)"
  by (simp add: stateFilter_Target_def IsUp_def IsOffline_def staleUpStore_def plainStore_def
        defaultOptions_def)

text \<open>
  C3, amended. The state filter's \<^verbatim>\<open>Source\<close> predicate rejects a store exactly when it
  is Tombstone, and its \<^verbatim>\<open>Target\<close> predicate accepts a store exactly when it is Up
  (hence not Offline); neither the store's down time nor \<^verbatim>\<open>MaxStoreDownTime\<close> changes
  the answer.
\<close>

theorem stateFilter_source_target:
  "(\<not> stateFilter_Source f opt store) = IsTombstone store
   \<and> stateFilter_Target f opt store = (IsUp store \<and> \<not> IsOffline store)
   \<and> stateFilter_Target f opt (store\<lparr>DownTime := d\<rparr>) = stateFilter_Target f opt store
   \<and> stateFilter_Target f (opt\<lparr>GetMaxStoreDownTime := m\<rparr>) store = stateFilter_Target f opt store"
  by (auto simp: stateFilter_Source_def stateFilter_Target_def IsUp_def IsOffline_def IsTombstone_def)

theorem stateFilter_source_target_witness:
  "stateFilter_Target (NewStateFilter ''s'') defaultOptions staleUpStore
   \<and> stateFilter_Source (NewStateFilter ''s'') defaultOptions staleUpStore
   \<and> IsTombstone (plainStore\<lparr>GetState := Tombstone\<rparr>)
   \<and> \<not> stateFilter_Source (NewStateFilter ''s'') defaultOptions (plainStore\<lparr>GetState := Tombstone\<rparr>)"
  using stateFilter_source_target [of "NewStateFilter ''s''" defaultOptions staleUpStore]
    stateFilter_source_target [of "NewStateFilter ''s''" defaultOptions "plainStore\<lparr>GetState := Tombstone\<rparr>"]
  by (simp add: IsUp_def IsOffline_def IsTombstone_def staleUpStore_def plainStore_def)

lemma set_disallowedUses: "set (disallowedUses uses allowUses) = set uses - set allowUses"
  by (induction uses) (auto simp: list_all_iff)

lemma matchStoreIn_specialUse:
  "matchStoreIn (special_constraint (NewSpecialUseFilter sc allowUses)) store
   = (case map_of (GetLabels store) ''specialUse'' of
        None \<Rightarrow> False
      | Some v \<Rightarrow> (v = ''hotRegion'' \<or> v = ''reserved'') \<and> v \<notin> set allowUses)"
proof -
  let ?c = "special_constraint (NewSpecialUseFilter sc allowUses)"
  have k: "Key ?c = ''specialUse''" and o: "Op ?c = ''in''"
    by (simp_all add: NewSpecialUseFilter_def SpecialUseKey_def)
  have "Values ?c = disallowedUses allSpecialUses allowUses"
    by (simp add: NewSpecialUseFilter_def)
  then have "set (Values ?c) = set allSpecialUses - set allowUses"
    by (simp only: set_disallowedUses)
  then have v: "set (Values ?c) = {''hotRegion'', ''reserved''} - set allowUses"
    by (simp add: allSpecialUses_def SpecialUseHotRegion_def SpecialUseReserved_def)
  show ?thesis
    unfolding matchStoreIn_def k o v by (auto split: option.splits)
qed

text \<open>
  C8 as stated fails on the \<^verbatim>\<open>Target\<close> side: the filter that the hot-region scheduler
  builds, \<^verbatim>\<open>NewSpecialUseFilter(name, SpecialUseHotRegion)\<close>, accepts as a target a store
  labelled \<^verbatim>\<open>specialUse = hotRegion\<close>.
\<close>

theorem specialUse_target_counterexample:
  "map_of (GetLabels fullHotStore) ''specialUse'' = Some ''hotRegion''
   \<and> specialUseFilter_Target matchStoreIn (NewSpecialUseFilter ''s'' [SpecialUseHotRegion])
        defaultOptions fullHotStore"
  by (simp add: specialUseFilter_Target_def matchStoreIn_specialUse fullHotStore_def plainStore_def
        SpecialUseHotRegion_def)

text \<open>
  C8, amended. For a store that is low on space the special-use filter's \<^verbatim>\<open>Source\<close>
  predicate is true whatever its labels; a store it rejects as a source is not low on
  space and carries a \<^verbatim>\<open>specialUse\<close> label in {hotRegion, reserved} that is not among
  the filter's allowed uses; its \<^verbatim>\<open>Target\<close> predicate rejects exactly the stores that
  carry such a label, whatever their used size and capacity and whatever
  \<^verbatim>\<open>LowSpaceRatio\<close> is, and accepts a store whose label is an allowed use.
\<close>

theorem specialUse_source_target:
  "(IsLowSpace store (GetLowSpaceRatio opt)
      \<longrightarrow> specialUseFilter_Source IsLowSpace matchStoreIn (NewSpecialUseFilter sc allowUses) opt store)
   \<and> (\<not> specialUseFilter_Source IsLowSpace matchStoreIn (NewSpecialUseFilter sc allowUses) opt store
      \<longrightarrow> \<not> IsLowSpace store (GetLowSpaceRatio opt)
          \<and> (\<exists>v. map_of (GetLabels store) ''specialUse'' = Some v
                \<and> (v = ''hotRegion'' \<or> v = ''reserved'') \<and> v \<notin> set allowUses))
   \<and> specialUseFilter_Target matchStoreIn (NewSpecialUseFilter sc allowUses) opt store
       = (case map_of (GetLabels store) ''specialUse'' of
            None \<Rightarrow> True
          | Some v \<Rightarrow> \<not> ((v = ''hotRegion'' \<or> v = ''reserved'') \<and> v \<notin> set allowUses))
   \<and> specialUseFilter_Target matchStoreIn (NewSpecialUseFilter sc allowUses)
        (opt\<lparr>GetLowSpaceRatio := r\<rparr>) (store\<lparr>GetUsedSize := used, GetCapacity := capacity\<rparr>)
       = specialUseFilter_Target matchStoreIn (NewSpecialUseFilter sc allowUses) opt store"
  by (auto simp: specialUseFilter_Source_def specialUseFilter_Target_def matchStoreIn_specialUse
        split: option.splits)

theorem specialUse_source_target_witness:
  "usedRatioAtLeast fullHotStore (GetLowSpaceRatio defaultOptions)
   \<and> map_of (GetLabels fullHotStore) ''specialUse'' = Some ''hotRegion''
   \<and> specialUseFilter_Source usedRatioAtLeast matchStoreIn (NewSpecialUseFilter ''s'' [])
        defaultOptions fullHotStore
   \<and> \<not> specialUseFilter_Target matchStoreIn (NewSpecialUseFilter ''s'' []) defaultOptions fullHotStore
   \<and> specialUseFilter_Target matchStoreIn (NewSpecialUseFilter ''s'' [''hotRegion''])
        defaultOptions fullHotStore
   \<and> \<not> usedRatioAtLeast emptyHotStore (GetLowSpaceRatio defaultOptions)
   \<and> \<not> specialUseFilter_Source usedRatioAtLeast matchStoreIn (NewSpecialUseFilter ''s'' [])
        defaultOptions emptyHotStore"
proof -
  note full = specialUse_source_target
    [of usedRatioAtLeast fullHotStore defaultOptions "''s''" "[]"]
  note allowed = specialUse_source_target
    [of usedRatioAtLeast fullHotStore defaultOptions "''s''" "[''hotRegion'']"]
  note empty = specialUse_source_target
    [of usedRatioAtLeast emptyHotStore defaultOptions "''s''" "[]"]
  have low: "usedRatioAtLeast fullHotStore (GetLowSpaceRatio defaultOptions)"
    and nlow: "\<not> usedRatioAtLeast emptyHotStore (GetLowSpaceRatio defaultOptions)"
    by (simp_all add: usedRatioAtLeast_def fullHotStore_def emptyHotStore_def plainStore_def
          defaultOptions_def)
  have lab: "map_of (GetLabels fullHotStore) ''specialUse'' = Some ''hotRegion''"
    by (simp add: fullHotStore_def plainStore_def)
  have src: "specialUseFilter_Source usedRatioAtLeast matchStoreIn (NewSpecialUseFilter ''s'' [])
               defaultOptions fullHotStore"
    using full low by blast
  have "specialUseFilter_Target matchStoreIn (NewSpecialUseFilter ''s'' []) defaultOptions fullHotStore
          = (case map_of (GetLabels fullHotStore) ''specialUse'' of
               None \<Rightarrow> True
             | Some v \<Rightarrow> \<not> ((v = ''hotRegion'' \<or> v = ''reserved'') \<and> v \<notin> set []))"
    using full by blast
  then have rej: "\<not> specialUseFilter_Target matchStoreIn (NewSpecialUseFilter ''s'' [])
                      defaultOptions fullHotStore"
    by (simp add: lab)
  have "specialUseFilter_Target matchStoreIn (NewSpecialUseFilter ''s'' [''hotRegion''])
          defaultOptions fullHotStore
          = (case map_of (GetLabels fullHotStore) ''specialUse'' of
               None \<Rightarrow> True
             | Some v \<Rightarrow> \<not> ((v = ''hotRegion'' \<or> v = ''reserved'') \<and> v \<notin> set [''hotRegion'']))"
    using allowed by blast
  then have acc: "specialUseFilter_Target matchStoreIn (NewSpecialUseFilter ''s'' [''hotRegion''])
                    defaultOptions fullHotStore"
    by (simp add: lab)
  have lab': "map_of (GetLabels emptyHotStore) ''specialUse'' = Some ''hotRegion''"
    by (simp add: emptyHotStore_def plainStore_def)
  have nsrc: "\<not> specialUseFilter_Source usedRatioAtLeast matchStoreIn (NewSpecialUseFilter ''s'' [])
                 defaultOptions emptyHotStore"
    by (simp add: specialUseFilter_Source_def matchStoreIn_specialUse nlow lab')
  then have "\<not> usedRatioAtLeast emptyHotStore (GetLowSpaceRatio defaultOptions)"
    using empty by blast
  with low lab src rej acc nsrc show ?thesis by blast
qed

subsection \<open>The hot-region scheduler\<close>

lemma raise_to_max: "raise_to a v = max a v"
  by (auto simp: raise_to_def max_def)

text \<open>
  C6. For the read perspective \<^verbatim>\<open>getHotRegionThreshold\<close> takes the byte-rate threshold
  from \<^verbatim>\<open>TotalBytesReadRate()\<close> and the key-rate threshold from \<^verbatim>\<open>TotalKeysWriteRate()\<close>,
  each divided by the divisor and raised to its minimum; \<^verbatim>\<open>TotalKeysReadRate()\<close> has no
  effect on the result.
\<close>

theorem getHotRegionThreshold_read:
  "getHotRegionThreshold stats Read =
     [max hotReadRegionMinFlowRate (uint64_of_float64 (TotalBytesReadRate stats / divisor)),
      max hotReadRegionMinKeyRate (uint64_of_float64 (TotalKeysWriteRate stats / divisor))]
   \<and> getHotRegionThreshold (stats\<lparr>TotalKeysReadRate := r\<rparr>) Read = getHotRegionThreshold stats Read"
  by (simp add: getHotRegionThreshold_def raise_to_max)

theorem getHotRegionThreshold_read_witness:
  "getHotRegionThreshold
     \<lparr>TotalBytesWriteRate = 0, TotalKeysWriteRate = 4000000,
      TotalBytesReadRate = 400000000, TotalKeysReadRate = 0\<rparr> Read = [200000, 2000]"
  using getHotRegionThreshold_read
    [of "\<lparr>TotalBytesWriteRate = 0, TotalKeysWriteRate = 4000000,
          TotalBytesReadRate = 400000000, TotalKeysReadRate = 0\<rparr>"]
  by (simp add: divisor_def uint64_of_float64_def hotReadRegionMinFlowRate_def
        hotReadRegionMinKeyRate_def)

text \<open>
  C7. \<^verbatim>\<open>calcPendingWeight\<close> is 1 for an operator that is not expired, not timed out and
  not in an end status; for one that is not expired, not timed out and in status Success
  it is 0 once the time since Success has reached \<^verbatim>\<open>MaxZombieDuration\<close> and
  (MaxZombieDuration - time) / MaxZombieDuration before, a value between 0 and 1; and it
  is 0 for an operator that is expired, timed out or in an end status other than Success.
\<close>

theorem calcPendingWeight_cases:
  "(\<not> CheckExpired op \<and> \<not> CheckTimeout op \<and> \<not> IsEndStatus (Status op)
      \<longrightarrow> calcPendingWeight h op = 1)
   \<and> (\<not> CheckExpired op \<and> \<not> CheckTimeout op \<and> Status op = SUCCESS
      \<longrightarrow> calcPendingWeight h op =
            (if int (SinceReachTimeOf op SUCCESS) \<ge> GetMaxZombieDuration (conf h) then 0
             else (real_of_int (GetMaxZombieDuration (conf h)) - real (SinceReachTimeOf op SUCCESS))
                    / real_of_int (GetMaxZombieDuration (conf h)))
          \<and> 0 \<le> calcPendingWeight h op \<and> calcPendingWeight h op \<le> 1)
   \<and> (CheckExpired op \<or> CheckTimeout op \<or> (IsEndStatus (Status op) \<and> Status op \<noteq> SUCCESS)
      \<longrightarrow> calcPendingWeight h op = 0)"
  by (cases "Status op") (auto simp: calcPendingWeight_def IsEndStatus_def Let_def divide_simps)

theorem calcPendingWeight_cases_witness:
  "calcPendingWeight idleScheduler inFlightOp = 1
   \<and> calcPendingWeight idleScheduler
        (inFlightOp\<lparr>Status := SUCCESS, SinceReachTimeOf := (\<lambda>st. 6000000000)\<rparr>) = 3 / 4
   \<and> calcPendingWeight idleScheduler
        (inFlightOp\<lparr>Status := SUCCESS, SinceReachTimeOf := (\<lambda>st. 24000000000)\<rparr>) = 0
   \<and> calcPendingWeight idleScheduler (inFlightOp\<lparr>CheckExpired := True, Status := EXPIRED\<rparr>) = 0
   \<and> calcPendingWeight idleScheduler (inFlightOp\<lparr>Status := CANCELED\<rparr>) = 0"
proof -
  have "\<not> CheckExpired inFlightOp \<and> \<not> CheckTimeout inFlightOp \<and> \<not> IsEndStatus (Status inFlightOp)"
    by (simp add: inFlightOp_def IsEndStatus_def)
  then have a: "calcPendingWeight idleScheduler inFlightOp = 1"
    using calcPendingWeight_cases [of inFlightOp idleScheduler] by blast
  let ?half = "inFlightOp\<lparr>Status := SUCCESS, SinceReachTimeOf := (\<lambda>st. 6000000000)\<rparr>"
  have "\<not> CheckExpired ?half \<and> \<not> CheckTimeout ?half \<and> Status ?half = SUCCESS"
    by (simp add: inFlightOp_def)
  then have "calcPendingWeight idleScheduler ?half =
       (if int (SinceReachTimeOf ?half SUCCESS) \<ge> GetMaxZombieDuration (conf idleScheduler) then 0
        else (real_of_int (GetMaxZombieDuration (conf idleScheduler)) - real (SinceReachTimeOf ?half SUCCESS))
               / real_of_int (GetMaxZombieDuration (conf idleScheduler)))"
    using calcPendingWeight_cases [of ?half idleScheduler] by blast
  then have b: "calcPendingWeight idleScheduler ?half = 3 / 4"
    by (simp add: idleScheduler_def idleConf_def)
  let ?gone = "inFlightOp\<lparr>Status := SUCCESS, SinceReachTimeOf := (\<lambda>st. 24000000000)\<rparr>"
  have "\<not> CheckExpired ?gone \<and> \<not> CheckTimeout ?gone \<and> Status ?gone = SUCCESS"
    by (simp add: inFlightOp_def)
  then have "calcPendingWeight idleScheduler ?gone =
       (if int (SinceReachTimeOf ?gone SUCCESS) \<ge> GetMaxZombieDuration (conf idleScheduler) then 0
        else (real_of_int (GetMaxZombieDuration (conf idleScheduler)) - real (SinceReachTimeOf ?gone SUCCESS))
               / real_of_int (GetMaxZombieDuration (conf idleScheduler)))"
    using calcPendingWeight_cases [of ?gone idleScheduler] by blast
  then have c: "calcPendingWeight idleScheduler ?gone = 0"
    by (simp add: idleScheduler_def idleConf_def)
  let ?expired = "inFlightOp\<lparr>CheckExpired := True, Status := EXPIRED\<rparr>"
  have "CheckExpired ?expired" by simp
  then have d: "calcPendingWeight idleScheduler ?expired = 0"
    using calcPendingWeight_cases [of ?expired idleScheduler] by blast
  let ?cancelled = "inFlightOp\<lparr>Status := CANCELED\<rparr>"
  have "IsEndStatus (Status ?cancelled) \<and> Status ?cancelled \<noteq> SUCCESS"
    by (simp add: IsEndStatus_def)
  then have e: "calcPendingWeight idleScheduler ?cancelled = 0"
    using calcPendingWeight_cases [of ?cancelled idleScheduler] by blast
  from a b c d e show ?thesis by blast
qed

text \<open>
  C9. When \<^verbatim>\<open>regionPendings\<close> already has an entry for the operator's region,
  \<^verbatim>\<open>addPendingInfluence\<close> returns false and the scheduler is unchanged. When it has none,
  the call returns true, \<^verbatim>\<open>pendings\<close> gains the new influence under the resource type of
  the call and nothing else, and \<^verbatim>\<open>regionPendings\<close> gains one entry, for that region,
  holding the operator in the slot of its operation type.
\<close>

theorem addPendingInfluence_spec:
  "(regionPendings h (RegionID op) \<noteq> None
      \<longrightarrow> addPendingInfluence newPI h op srcStore dstStore infl rwTy opTy = (False, h))
   \<and> (regionPendings h (RegionID op) = None
      \<longrightarrow> fst (addPendingInfluence newPI h op srcStore dstStore infl rwTy opTy) = True
          \<and> pendings (snd (addPendingInfluence newPI h op srcStore dstStore infl rwTy opTy))
             = (pendings h)(toResourceType rwTy opTy :=
                  newPI op srcStore dstStore infl # pendings h (toResourceType rwTy opTy))
          \<and> regionPendings (snd (addPendingInfluence newPI h op srcStore dstStore infl rwTy opTy))
             = (regionPendings h)(RegionID op \<mapsto>
                  (case opTy of movePeer \<Rightarrow> [Some op, None] | transferLeader \<Rightarrow> [None, Some op]))
          \<and> dom (regionPendings (snd (addPendingInfluence newPI h op srcStore dstStore infl rwTy opTy)))
             = insert (RegionID op) (dom (regionPendings h))
          \<and> conf (snd (addPendingInfluence newPI h op srcStore dstStore infl rwTy opTy)) = conf h)"
  by (cases opTy) (auto simp: addPendingInfluence_def Let_def)

theorem addPendingInfluence_spec_witness:
  "regionPendings idleScheduler (RegionID inFlightOp) = None
   \<and> fst (addPendingInfluence (\<lambda>op src dst infl. ()) idleScheduler inFlightOp 1 2
            \<lparr>infl_ByteRate = 1, infl_KeyRate = 1, infl_Count = 1\<rparr> Write movePeer)
   \<and> pendings (snd (addPendingInfluence (\<lambda>op src dst infl. ()) idleScheduler inFlightOp 1 2
            \<lparr>infl_ByteRate = 1, infl_KeyRate = 1, infl_Count = 1\<rparr> Write movePeer)) writePeer = [()]
   \<and> regionPendings (snd (addPendingInfluence (\<lambda>op src dst infl. ()) idleScheduler inFlightOp 1 2
            \<lparr>infl_ByteRate = 1, infl_KeyRate = 1, infl_Count = 1\<rparr> Write movePeer)) 7
       = Some [Some inFlightOp, None]
   \<and> fst (addPendingInfluence (\<lambda>op src dst infl. ())
            (snd (addPendingInfluence (\<lambda>op src dst infl. ()) idleScheduler inFlightOp 1 2
               \<lparr>infl_ByteRate = 1, infl_KeyRate = 1, infl_Count = 1\<rparr> Write movePeer))
            inFlightOp 1 3 \<lparr>infl_ByteRate = 1, infl_KeyRate = 1, infl_Count = 1\<rparr> Write transferLeader)
       = False"
proof -
  let ?new = "\<lambda>(op :: Operator) (src :: uint64) (dst :: uint64) (infl :: Influence). ()"
  let ?infl = "\<lparr>infl_ByteRate = 1, infl_KeyRate = 1, infl_Count = 1\<rparr>"
  let ?h = "snd (addPendingInfluence ?new idleScheduler inFlightOp 1 2 ?infl Write movePeer)"
  have r: "RegionID inFlightOp = 7" by (simp add: inFlightOp_def)
  have absent: "regionPendings idleScheduler (RegionID inFlightOp) = None"
    by (simp add: idleScheduler_def)
  note first = addPendingInfluence_spec
    [of idleScheduler inFlightOp ?new 1 2 ?infl Write movePeer]
  have t: "fst (addPendingInfluence ?new idleScheduler inFlightOp 1 2 ?infl Write movePeer)"
    using first absent by blast
  have p: "pendings ?h = (pendings idleScheduler)(toResourceType Write movePeer :=
             ?new inFlightOp 1 2 ?infl # pendings idleScheduler (toResourceType Write movePeer))"
    using first absent by blast
  have q: "regionPendings ?h = (regionPendings idleScheduler)(RegionID inFlightOp \<mapsto>
             (case movePeer of movePeer \<Rightarrow> [Some inFlightOp, None]
              | transferLeader \<Rightarrow> [None, Some inFlightOp]))"
    using first absent by blast
  have p': "pendings ?h writePeer = [()]"
    by (subst p) (simp add: idleScheduler_def)
  have q': "regionPendings ?h 7 = Some [Some inFlightOp, None]"
    by (simp add: q r)
  then have present: "regionPendings ?h (RegionID inFlightOp) \<noteq> None"
    by (simp add: r)
  have "addPendingInfluence ?new ?h inFlightOp 1 3 ?infl Write transferLeader = (False, ?h)"
    using addPendingInfluence_spec [of ?h inFlightOp ?new 1 3 ?infl Write transferLeader] present
    by blast
  then have f: "fst (addPendingInfluence ?new ?h inFlightOp 1 3 ?infl Write transferLeader) = False"
    by simp
  from absent t p' q' f show ?thesis by blast
qed

lemma filterSrcStores_loop_absent:
  "k \<notin> fst ` set es \<Longrightarrow> filterSrcStores_loop lpMin bs es ret k = ret k"
  by (induction es arbitrary: ret) (auto split: if_splits)

lemma filterSrcStores_loop_present:
  "distinct (map fst es) \<Longrightarrow> (k, d) \<in> set es \<Longrightarrow>
   filterSrcStores_loop lpMin bs es ret k =
     (if GetStore bs k \<noteq> None \<and> HotPeers d \<noteq> [] \<and> ratesExceed lpMin bs d then Some d else ret k)"
proof (induction es arbitrary: ret)
  case Nil
  then show ?case by simp
next
  case (Cons e es)
  obtain i x where e: "e = (i, x)" by (cases e)
  show ?case
  proof (cases "(k, d) = e")
    case True
    then have "k \<notin> fst ` set es" using Cons.prems(1) e by auto
    then show ?thesis using True e
      by (auto simp: filterSrcStores_loop_absent ratesExceed_def)
  next
    case False
    then have m: "(k, d) \<in> set es" and ne: "i \<noteq> k" using Cons.prems e by force+
    have dd: "distinct (map fst es)" using Cons.prems(1) by simp
    show ?thesis using e ne Cons.IH [OF dd m] by simp
  qed
qed

text \<open>
  C4 as stated fails: a store whose minimum projected byte and key rates both exceed
  \<^verbatim>\<open>SrcToleranceRatio\<close> times the expected rates, and which has no hot peer, is not
  kept.
\<close>

theorem filterSrcStores_counterexample:
  "\<not> ((filterSrcStores minLoadPred noHotPeerSolver 1 \<noteq> None)
        = ratesExceed minLoadPred noHotPeerSolver noHotPeerDetail)"
  by (simp add: filterSrcStores_def noHotPeerSolver_def noHotPeerDetail_def ratesExceed_def
        minLoadPred_def busyLoad_def idleScheduler_def idleConf_def)

text \<open>
  C4, amended. A store with load statistics is kept as a source by \<^verbatim>\<open>filterSrcStores\<close>
  exactly when the cluster knows the store, it has at least one hot peer, and its minimum
  projected byte rate and key rate both exceed \<^verbatim>\<open>SrcToleranceRatio\<close> times the expected
  rate on that axis; a kept store is kept with its own load detail.
\<close>

theorem filterSrcStores_keeps_iff:
  "distinct (map fst (stLoadDetail bs)) \<Longrightarrow> (ident, detail) \<in> set (stLoadDetail bs) \<Longrightarrow>
   (filterSrcStores lpMin bs ident \<noteq> None)
     = (GetStore bs ident \<noteq> None \<and> length (HotPeers detail) \<noteq> 0
        \<and> ByteRate (lpMin (LoadPred detail))
            > GetSrcToleranceRatio (conf (sche bs)) * ExpByteRate (Future (LoadPred detail))
        \<and> KeyRate (lpMin (LoadPred detail))
            > GetSrcToleranceRatio (conf (sche bs)) * ExpKeyRate (Future (LoadPred detail)))
   \<and> (filterSrcStores lpMin bs ident \<noteq> None) = (filterSrcStores lpMin bs ident = Some detail)"
  by (simp add: filterSrcStores_def filterSrcStores_loop_present ratesExceed_def)

theorem filterSrcStores_keeps_iff_witness:
  "distinct (map fst (stLoadDetail twoHotPeerSolver))
   \<and> (1, twoHotPeerDetail) \<in> set (stLoadDetail twoHotPeerSolver)
   \<and> filterSrcStores minLoadPred twoHotPeerSolver 1 = Some twoHotPeerDetail
   \<and> distinct (map fst (stLoadDetail noHotPeerSolver))
   \<and> (1, noHotPeerDetail) \<in> set (stLoadDetail noHotPeerSolver)
   \<and> filterSrcStores minLoadPred noHotPeerSolver 1 = None"
proof -
  have d: "distinct (map fst (stLoadDetail twoHotPeerSolver))"
    and m: "(1, twoHotPeerDetail) \<in> set (stLoadDetail twoHotPeerSolver)"
    by (simp_all add: twoHotPeerSolver_def)
  have d': "distinct (map fst (stLoadDetail noHotPeerSolver))"
    and m': "(1, noHotPeerDetail) \<in> set (stLoadDetail noHotPeerSolver)"
    by (simp_all add: noHotPeerSolver_def)
  have k: "GetStore twoHotPeerSolver 1 \<noteq> None \<and> length (HotPeers twoHotPeerDetail) \<noteq> 0
        \<and> ByteRate (minLoadPred (LoadPred twoHotPeerDetail))
            > GetSrcToleranceRatio (conf (sche twoHotPeerSolver))
                * ExpByteRate (Future (LoadPred twoHotPeerDetail))
        \<and> KeyRate (minLoadPred (LoadPred twoHotPeerDetail))
            > GetSrcToleranceRatio (conf (sche twoHotPeerSolver))
                * ExpKeyRate (Future (LoadPred twoHotPeerDetail))"
    by (simp add: twoHotPeerSolver_def twoHotPeerDetail_def noHotPeerDetail_def minLoadPred_def
          busyLoad_def idleScheduler_def idleConf_def)
  have a: "filterSrcStores minLoadPred twoHotPeerSolver 1 = Some twoHotPeerDetail"
    using filterSrcStores_keeps_iff [OF d m, of minLoadPred] k by blast
  have "length (HotPeers noHotPeerDetail) = 0"
    by (simp add: noHotPeerDetail_def)
  then have "\<not> filterSrcStores minLoadPred noHotPeerSolver 1 \<noteq> None"
    using filterSrcStores_keeps_iff [OF d' m', of minLoadPred] by blast
  then have b: "filterSrcStores minLoadPred noHotPeerSolver 1 = None"
    by simp
  from d m a d' m' b show ?thesis by blast
qed

lemma takeNew_subset: "set (fst (takeNew xs u)) \<subseteq> set xs"
  by (induction xs) auto

lemma takeNew_found:
  "\<exists>x \<in> set xs. x \<notin> set u \<Longrightarrow>
   \<exists>y. y \<notin> set u \<and> y \<in> set xs \<and> snd (takeNew xs u) = u @ [y]
       \<and> set xs - insert y (set u) \<subseteq> set (fst (takeNew xs u))"
proof (induction xs)
  case Nil
  then show ?case by simp
next
  case (Cons p rest)
  show ?case
  proof (cases "p \<in> set u")
    case True
    then have "\<exists>x \<in> set rest. x \<notin> set u" using Cons.prems by auto
    from Cons.IH [OF this] obtain y where
      y: "y \<notin> set u" "y \<in> set rest" "snd (takeNew rest u) = u @ [y]"
         "set rest - insert y (set u) \<subseteq> set (fst (takeNew rest u))" by blast
    have "set (p # rest) - insert y (set u) \<subseteq> set (fst (takeNew (p # rest) u))"
      using True y(4) by auto
    then show ?thesis using True y(1-3) by auto
  next
    case False
    then show ?thesis by auto
  qed
qed

lemma larger_set_has_more:
  assumes "B \<subseteq> A" and "card B < card A"
  shows "\<exists>x. x \<in> A - B"
proof -
  have "A \<noteq> B" using assms(2) by auto
  then show ?thesis using assms(1) by blast
qed

lemma loopLength_step:
  assumes "int n < m"
  shows "loopLength m (n + 2) = loopLength m n"
proof -
  consider "m = int n + 1" | "m = int n + 2" | "int n + 2 < m"
    using assms by linarith
  then show ?thesis
    by cases (auto simp: loopLength_def)
qed

lemma unionLoop_length:
  "finite A \<Longrightarrow> m < int (card A) \<Longrightarrow> distinct u \<Longrightarrow> set u \<subseteq> A \<Longrightarrow>
   A - set u \<subseteq> set b \<Longrightarrow> A - set u \<subseteq> set k \<Longrightarrow> set b \<subseteq> A \<Longrightarrow> set k \<subseteq> A \<Longrightarrow>
   \<exists>r. unionLoop m b k u = Some r \<and> length r = loopLength m (length u)"
proof (induction m b k u rule: unionLoop.induct)
  case (1 m b k u)
  show ?case
  proof (cases "int (length u) < m")
    case False
    then show ?thesis
      by (subst unionLoop.simps) (simp add: loopLength_def)
  next
    case True
    have cu: "card (set u) = length u"
      using "1.prems"(3) by (simp add: distinct_card)
    have "card (set u) < card A" using True "1.prems"(2) cu by linarith
    then have "\<exists>x. x \<in> A - set u"
      using "1.prems"(4) by (rule larger_set_has_more [rotated])
    then have eb: "\<exists>x \<in> set b. x \<notin> set u" using "1.prems"(5) by blast
    from takeNew_found [OF eb] obtain y where
      y: "y \<notin> set u" "y \<in> set b" "snd (takeNew b u) = u @ [y]"
         "set b - insert y (set u) \<subseteq> set (fst (takeNew b u))" by blast
    let ?u1 = "u @ [y]"
    have d1: "distinct ?u1" using "1.prems"(3) y(1) by simp
    have s1: "set ?u1 \<subseteq> A" using "1.prems"(4,7) y(2) by auto
    have "card (set ?u1) = length u + 1" using distinct_card [OF d1] by simp
    then have "card (set ?u1) < card A" using True "1.prems"(2) by linarith
    then have "\<exists>x. x \<in> A - set ?u1"
      using s1 by (rule larger_set_has_more [rotated])
    then have ek: "\<exists>x \<in> set k. x \<notin> set ?u1" using "1.prems"(6) by auto
    from takeNew_found [OF ek] obtain z where
      z: "z \<notin> set ?u1" "z \<in> set k" "snd (takeNew k ?u1) = ?u1 @ [z]"
         "set k - insert z (set ?u1) \<subseteq> set (fst (takeNew k ?u1))" by blast
    let ?u2 = "?u1 @ [z]"
    let ?b' = "fst (takeNew b u)"
    let ?k' = "fst (takeNew k ?u1)"
    have ne: "\<not> (b = [] \<and> k = [])" using y(2) by auto
    have d2: "distinct ?u2" using d1 z(1) by simp
    have s2: "set ?u2 \<subseteq> A" using s1 "1.prems"(8) z(2) by auto
    have ib: "A - set ?u2 \<subseteq> set ?b'" using "1.prems"(5) y(4) by auto
    have ik: "A - set ?u2 \<subseteq> set ?k'" using "1.prems"(6) z(4) by auto
    have sb: "set ?b' \<subseteq> A" using takeNew_subset [of b u] "1.prems"(7) by blast
    have sk: "set ?k' \<subseteq> A" using takeNew_subset [of k ?u1] "1.prems"(8) by blast
    have ih: "\<exists>r. unionLoop m ?b' ?k' ?u2 = Some r \<and> length r = loopLength m (length ?u2)"
      using "1.IH" [OF True ne "1.prems"(1,2)] d2 s2 ib ik sb sk
      by (simp only: y(3) z(3))
    have "unionLoop m b k u =
            unionLoop m (fst (takeNew b u)) (fst (takeNew k (snd (takeNew b u))))
              (snd (takeNew k (snd (takeNew b u))))"
      using True ne by (subst unionLoop.simps) (simp only: if_True if_False)
    then have step: "unionLoop m b k u = unionLoop m ?b' ?k' ?u2"
      by (simp only: y(3) z(3))
    have "loopLength m (length ?u2) = loopLength m (length u)"
      using loopLength_step [OF True] by simp
    then show ?thesis using ih step by simp
  qed
qed

lemma set_insertSorted: "set (insertSorted before x ys) = insert x (set ys)"
  by (induction ys) auto

lemma set_sortSlice: "set (sortSlice before xs) = set xs"
  by (induction xs) (simp_all add: sortSlice_def set_insertSorted)

lemma appendItems_no_pendings:
  "regionPendings (sche bs) = Map.empty \<Longrightarrow> appendItems bs xs = xs"
  by (induction xs) simp_all

text \<open>
  With more distinct hot peers than \<^verbatim>\<open>MaxPeerNumber\<close> and no pending region,
  \<^verbatim>\<open>filterHotPeers\<close> returns, and the number of peers it returns is \<^verbatim>\<open>MaxPeerNumber\<close>
  rounded up to an even number: one more than the cap whenever the cap is odd.
\<close>

lemma filterHotPeers_length:
  assumes detail: "map_of (stLoadDetail bs) (cur_srcStoreID bs) = Some detail"
    and dist: "distinct (HotPeers detail)"
    and more: "GetMaxPeerNumber (conf (sche bs)) < int (length (HotPeers detail))"
    and idle: "regionPendings (sche bs) = Map.empty"
  shows "\<exists>ret. filterHotPeers bs = Returned ret
           \<and> int (length ret) =
               (if GetMaxPeerNumber (conf (sche bs)) \<le> 0 then 0
                else if even (GetMaxPeerNumber (conf (sche bs)))
                  then GetMaxPeerNumber (conf (sche bs))
                else GetMaxPeerNumber (conf (sche bs)) + 1)"
proof -
  let ?m = "GetMaxPeerNumber (conf (sche bs))"
  let ?A = "set (HotPeers detail)"
  let ?b = "sortSlice (\<lambda>i j. GetByteRate (peerStat bs i) > GetByteRate (peerStat bs j)) (HotPeers detail)"
  let ?k = "sortSlice (\<lambda>i j. GetKeyRate (peerStat bs i) > GetKeyRate (peerStat bs j)) (HotPeers detail)"
  have c: "?m < int (card ?A)" using more dist by (simp add: distinct_card)
  have "\<exists>r. unionLoop ?m ?b ?k [] = Some r \<and> length r = loopLength ?m (length ([] :: peerRef list))"
    by (rule unionLoop_length [of ?A]) (use c in \<open>simp_all add: set_sortSlice\<close>)
  then obtain r where r: "unionLoop ?m ?b ?k [] = Some r" "length r = loopLength ?m 0"
    by auto
  have "filterHotPeers bs = Returned r"
    using detail more r(1) by (simp add: filterHotPeers_def Let_def appendItems_no_pendings [OF idle])
  moreover have "int (length r) = (if ?m \<le> 0 then 0 else if even ?m then ?m else ?m + 1)"
    by (simp add: r(2) loopLength_def)
  ultimately show ?thesis by blast
qed

text \<open>
  C5 fails on the code: with \<^verbatim>\<open>MaxPeerNumber\<close> 1 and two hot peers, one the hottest by
  byte rate and the other by key rate, \<^verbatim>\<open>filterHotPeers\<close> returns both peers. The outer
  loop tests the size of \<^verbatim>\<open>union\<close> once per iteration and an iteration adds a peer from
  each of the two orders.
\<close>

theorem filterHotPeers_exceeds_odd_cap:
  "filterHotPeers twoHotPeerSolver = Returned [0, 1]
   \<and> GetMaxPeerNumber (conf (sche twoHotPeerSolver)) = 1
   \<and> map_of (stLoadDetail twoHotPeerSolver) (cur_srcStoreID twoHotPeerSolver)
       = Some twoHotPeerDetail
   \<and> length (HotPeers twoHotPeerDetail) = 2"
  by (simp add: filterHotPeers_def twoHotPeerSolver_def twoHotPeerDetail_def noHotPeerDetail_def
        idleScheduler_def idleConf_def Let_def sortSlice_def
        unionLoop.simps [of _ _ _ "[]"] unionLoop.simps [of _ _ _ "[a, b]" for a b])

end
